theory Spec2Isabelle
  imports Main
begin

section \<open>Values, errors and the console\<close>

text \<open>
  The program is \<^verbatim>\<open>index.js\<close>: a start-up script that creates an Express application,
  opens a Sequelize connection, defines one model, synchronises its table and listens on
  a port. Everything it does is a call into one of the two libraries, so the embedding
  is a state record of what those calls leave behind (the route stack, the models, the
  calls sent to the database, the console, the listening ports) and functions that
  update it in the order the script runs.

  A column holds an integer, a string or nothing; \<open>Null\<close> stands for JavaScript's
  \<open>null\<close> and \<open>undefined\<close> and for SQL's \<open>NULL\<close>. Values are taken as the library has
  coerced them to the column's type.
\<close>

datatype val = Null | IntV int | StrV string

datatype error =
    ConnectionError string
  | DatabaseError string
  | ValidationError string
  | UniqueConstraintError string

datatype log_arg = Str string | Err error

section \<open>The model definition\<close>

text \<open>
  \<^verbatim>\<open>sequelize.define(modelName, attributes, options)\<close>. An attribute is the object of
  options the source writes for it; an option the source leaves out is \<open>None\<close>.
  \<open>DATE\<close> is the type of the two timestamp columns the library adds on its own.
\<close>

datatype dataType = INTEGER | STRING | DATE

record attribute =
  type :: dataType
  autoIncrement :: "bool option"
  primaryKey :: "bool option"
  allowNull :: "bool option"
  unique :: "bool option"
  defaultValue :: "val option"

record model_options =
  timestamps :: "bool option"
  freezeTableName :: "bool option"

record model =
  modelName :: string
  rawAttributes :: "(string \<times> attribute) list"
  options :: model_options

definition sequelize_define :: "string \<Rightarrow> (string \<times> attribute) list \<Rightarrow> model_options \<Rightarrow> model" where
  "sequelize_define name attributes opts =
     \<lparr>modelName = name, rawAttributes = attributes, options = opts\<rparr>"

text \<open>Lines 17 to 42 of \<^verbatim>\<open>index.js\<close>.\<close>

definition User :: model where
  "User = sequelize_define ''user''
     [(''id'',
         \<lparr>type = INTEGER, autoIncrement = Some True, primaryKey = Some True,
          allowNull = None, unique = None, defaultValue = None\<rparr>),
      (''username'',
         \<lparr>type = STRING, autoIncrement = None, primaryKey = None,
          allowNull = Some False, unique = Some True, defaultValue = None\<rparr>),
      (''password'',
         \<lparr>type = STRING, autoIncrement = None, primaryKey = None,
          allowNull = None, unique = None, defaultValue = None\<rparr>),
      (''age'',
         \<lparr>type = INTEGER, autoIncrement = None, primaryKey = None,
          allowNull = None, unique = None, defaultValue = Some (IntV 22)\<rparr>)]
     \<lparr>timestamps = Some False, freezeTableName = Some True\<rparr>"

section \<open>What the library makes of a model\<close>

text \<open>
  The table's name is the model's name when \<open>freezeTableName\<close> is set and its plural
  otherwise; the plural is the inflection library's, a parameter here.
\<close>

definition getTableName :: "(string \<Rightarrow> string) \<Rightarrow> model \<Rightarrow> string" where
  "getTableName pluralize m =
     (if freezeTableName (options m) = Some True then modelName m
      else pluralize (modelName m))"

text \<open>
  The table's columns are the declared attributes, an \<open>id\<close> in front when no attribute
  is a primary key, and \<open>createdAt\<close> and \<open>updatedAt\<close> at the end unless \<open>timestamps\<close> is
  false.
\<close>

definition idAttribute :: attribute where
  "idAttribute =
     \<lparr>type = INTEGER, autoIncrement = Some True, primaryKey = Some True,
      allowNull = Some False, unique = None, defaultValue = None\<rparr>"

definition timestampAttribute :: attribute where
  "timestampAttribute =
     \<lparr>type = DATE, autoIncrement = None, primaryKey = None,
      allowNull = Some False, unique = None, defaultValue = None\<rparr>"

definition timestampNames :: "string list" where
  "timestampNames = [''createdAt'', ''updatedAt'']"

definition columns :: "model \<Rightarrow> (string \<times> attribute) list" where
  "columns m =
     (if list_ex (\<lambda>(c, a). primaryKey a = Some True) (rawAttributes m) then []
      else [(''id'', idAttribute)])
     @ rawAttributes m
     @ (if timestamps (options m) = Some False then []
        else map (\<lambda>c. (c, timestampAttribute)) timestampNames)"

section \<open>The table\<close>

text \<open>
  A row lists its fields in column order; reading a field the row does not have gives
  \<open>Null\<close>, as reading a missing property gives \<open>undefined\<close>. A table keeps the column
  definitions it was last synchronised to, its rows and the counter from which the
  database numbers an auto-increment column.
\<close>

type_synonym row = "(string \<times> val) list"

definition field :: "row \<Rightarrow> string \<Rightarrow> val" where
  "field r c = (case map_of r c of Some v \<Rightarrow> v | None \<Rightarrow> Null)"

record table =
  cols :: "(string \<times> attribute) list"
  rows :: "row list"
  auto_increment :: int

type_synonym db_state = "string \<Rightarrow> table option"

subsection \<open>Synchronising the schema\<close>

text \<open>
  The three modes, as the comment above the call in \<^verbatim>\<open>index.js\<close> lists them (lines 46
  to 50): \<^verbatim>\<open>sync()\<close> creates the table if it does not exist,
  \<^verbatim>\<open>sync({force:true})\<close> drops it first if it already exists,
  \<^verbatim>\<open>sync({alter:true})\<close> performs the necessary changes. Altering keeps every row:
  a column that stays keeps its value, a new column gets its default.
\<close>

record sync_options =
  force :: "bool option"
  alter :: "bool option"

definition create_table :: "(string \<times> attribute) list \<Rightarrow> table" where
  "create_table cs = \<lparr>cols = cs, rows = [], auto_increment = 1\<rparr>"

definition alter_row :: "(string \<times> attribute) list \<Rightarrow> row \<Rightarrow> row" where
  "alter_row cs r =
     map (\<lambda>(c, a). (c, case map_of r c of
                          Some v \<Rightarrow> v
                        | None \<Rightarrow> (case defaultValue a of Some d \<Rightarrow> d | None \<Rightarrow> Null))) cs"

definition sync_table :: "sync_options \<Rightarrow> (string \<times> attribute) list \<Rightarrow> table option \<Rightarrow> table" where
  "sync_table opts cs old =
     (case old of
        None \<Rightarrow> create_table cs
      | Some t \<Rightarrow>
          if force opts = Some True then create_table cs
          else if alter opts = Some True then t\<lparr>cols := cs, rows := map (alter_row cs) (rows t)\<rparr>
          else t)"

subsection \<open>Creating a record\<close>

text \<open>
  \<^verbatim>\<open>Model.create(values)\<close>, the method every defined model has. The instance is built
  from the values given: a declared attribute (or the added \<open>id\<close>) that is not given
  takes its \<open>defaultValue\<close> if it has one, and the timestamp columns take the current
  time. Validation refuses a \<open>Null\<close> in an attribute with \<open>allowNull: false\<close>, except an
  auto-increment one, which the database fills from its counter. The database then
  refuses the row if a \<open>unique\<close> or primary-key column would repeat a value some row
  already has (the error names the column); otherwise the row is appended, and the
  record returned is the row as stored.
\<close>

definition build :: "model \<Rightarrow> (string \<times> val) list \<Rightarrow> val \<Rightarrow> row" where
  "build m vals now =
     map (\<lambda>(c, a). (c,
            if timestamps (options m) \<noteq> Some False \<and> c \<in> set timestampNames then now
            else case map_of vals c of
                   Some v \<Rightarrow> v
                 | None \<Rightarrow> (case defaultValue a of Some d \<Rightarrow> d | None \<Rightarrow> Null)))
       (columns m)"

definition notNull_violation :: "row \<Rightarrow> string \<times> attribute \<Rightarrow> bool" where
  "notNull_violation r ca =
     (allowNull (snd ca) = Some False \<and> autoIncrement (snd ca) \<noteq> Some True
      \<and> field r (fst ca) = Null)"

definition numbered :: "model \<Rightarrow> int \<Rightarrow> row \<Rightarrow> row" where
  "numbered m n r =
     map (\<lambda>(c, a). (c, if autoIncrement a = Some True \<and> field r c = Null then IntV n
                        else field r c))
       (columns m)"

definition duplicate :: "row list \<Rightarrow> row \<Rightarrow> string \<times> attribute \<Rightarrow> bool" where
  "duplicate rs r ca =
     ((unique (snd ca) = Some True \<or> primaryKey (snd ca) = Some True)
      \<and> field r (fst ca) \<noteq> Null
      \<and> list_ex (\<lambda>r'. field r' (fst ca) = field r (fst ca)) rs)"

definition next_auto_increment :: "model \<Rightarrow> int \<Rightarrow> row \<Rightarrow> int" where
  "next_auto_increment m n r =
     (case find (\<lambda>(c, a). autoIncrement a = Some True) (columns m) of
        None \<Rightarrow> n
      | Some (c, a) \<Rightarrow> (case field r c of IntV i \<Rightarrow> max n (i + 1) | _ \<Rightarrow> n))"

definition create :: "model \<Rightarrow> table \<Rightarrow> (string \<times> val) list \<Rightarrow> val \<Rightarrow> error + (row \<times> table)" where
  "create m t vals now =
     (let built = build m vals now in
      case find (notNull_violation built) (columns m) of
        Some (c, a) \<Rightarrow> Inl (ValidationError (modelName m @ ''.'' @ c @ '' cannot be null''))
      | None \<Rightarrow>
          (let r = numbered m (auto_increment t) built in
           case find (duplicate (rows t) r) (columns m) of
             Some (c, a) \<Rightarrow> Inl (UniqueConstraintError c)
           | None \<Rightarrow>
               Inr (r, t\<lparr>rows := rows t @ [r],
                          auto_increment := next_auto_increment m (auto_increment t) r\<rparr>)))"

section \<open>The Express application\<close>

text \<open>
  A request is its method, its path as the list of segments between the slashes
  (\<^verbatim>\<open>/users/7\<close> is \<open>[''users'', ''7'']\<close>) and its JSON body. A route is what
  \<^verbatim>\<open>app.get\<close>, \<^verbatim>\<open>app.post\<close>, \<^verbatim>\<open>app.put\<close> or \<^verbatim>\<open>app.delete\<close> pushes on the
  application's stack: a method, a path pattern and a handler, which may read and
  change the database and sends a response. The application answers a request with the
  first route that matches; when none does, the framework's final handler answers 404
  with a page that says \<^verbatim>\<open>Cannot GET /users/7\<close>.
\<close>

datatype http_method = GET | POST | PUT | DELETE

record request =
  req_method :: http_method
  req_path :: "string list"
  req_body :: "(string \<times> val) list"

datatype content = Html string | Text string | Json "(string \<times> val) list"

record response =
  status :: nat
  content :: content

datatype segment = Lit string | Param string

record route =
  route_method :: http_method
  route_path :: "segment list"
  handler :: "request \<Rightarrow> db_state \<Rightarrow> response \<times> db_state"

fun segment_matches :: "segment \<Rightarrow> string \<Rightarrow> bool" where
  "segment_matches (Lit s) t = (s = t)"
| "segment_matches (Param p) t = (t \<noteq> [])"

definition route_matches :: "request \<Rightarrow> route \<Rightarrow> bool" where
  "route_matches rq r =
     (route_method r = req_method rq \<and> list_all2 segment_matches (route_path r) (req_path rq))"

fun method_name :: "http_method \<Rightarrow> string" where
  "method_name GET = ''GET''"
| "method_name POST = ''POST''"
| "method_name PUT = ''PUT''"
| "method_name DELETE = ''DELETE''"

definition url :: "string list \<Rightarrow> string" where
  "url segs = (if segs = [] then ''/'' else concat (map (\<lambda>s. ''/'' @ s) segs))"

definition finalhandler :: "request \<Rightarrow> response" where
  "finalhandler rq =
     \<lparr>status = 404,
      content = Html (''Cannot '' @ method_name (req_method rq) @ '' '' @ url (req_path rq))\<rparr>"

definition app_handle :: "route list \<Rightarrow> request \<Rightarrow> db_state \<Rightarrow> response \<times> db_state" where
  "app_handle stack rq d =
     (case find (route_matches rq) stack of
        None \<Rightarrow> (finalhandler rq, d)
      | Some r \<Rightarrow> handler r rq d)"

section \<open>The process\<close>

text \<open>
  The configuration object is \<^verbatim>\<open>require("./config/config")["development"]\<close>; the file
  is not part of the sources, so the object is a parameter. It is taken to be one that
  \<^verbatim>\<open>new Sequelize(config)\<close> accepts, so that the script runs to its last line, and the
  port is taken to be free. The connection object is then nothing more than the
  configuration it was made from.
\<close>

record config =
  username :: string
  password :: string
  database :: string
  host :: string
  dialect :: string

text \<open>
  A call the script hands to a library and that settles later: the connection test, the
  schema synchronisation (the connection, the table's name, its columns, the options)
  and the server's listen.
\<close>

datatype call =
    Authenticate config
  | Sync config string "(string \<times> attribute) list" sync_options
  | Listen nat

datatype event = AuthenticateSettled | SyncSettled | ListenCallback | Incoming request

fun settles :: "call \<Rightarrow> event" where
  "settles (Authenticate cfg) = AuthenticateSettled"
| "settles (Sync cfg tbl cs opts) = SyncSettled"
| "settles (Listen port) = ListenCallback"

record state =
  routes :: "route list"
  models :: "model list"
  issued :: "call list"
  pending :: "call list"
  listening :: "nat list"
  console :: "log_arg list list"
  responses :: "(request \<times> response) list"
  unhandled :: "error list"
  db :: db_state

text \<open>
  What the script does not decide: the configuration, the plural the inflection library
  would give, whether the connection test and the synchronisation succeed, the tables
  the database holds when the process starts, and the order in which the pending calls
  settle and requests arrive. A synchronisation that fails is taken to leave the tables
  as they were.
\<close>

record environment =
  development :: config
  pluralize :: "string \<Rightarrow> string"
  authenticate_result :: "error option"
  sync_result :: "error option"
  initial_db :: db_state
  schedule :: "event list"

subsection \<open>Promises\<close>

text \<open>
  \<^verbatim>\<open>p.then(f).catch(g)\<close>: \<open>f\<close> runs when \<open>p\<close> is fulfilled, \<open>g\<close> when \<open>p\<close> is rejected;
  either way the chain ends fulfilled, since neither callback of the script throws. A
  chain that ends rejected is an unhandled rejection.
\<close>

datatype 'a settled = Fulfilled 'a | Rejected error

definition console_log :: "log_arg list \<Rightarrow> state \<Rightarrow> state" where
  "console_log args s = s\<lparr>console := console s @ [args]\<rparr>"

definition promise_then ::
  "('a \<Rightarrow> state \<Rightarrow> state) \<Rightarrow> 'a settled \<times> state \<Rightarrow> unit settled \<times> state" where
  "promise_then f ps =
     (case ps of
        (Fulfilled v, s) \<Rightarrow> (Fulfilled (), f v s)
      | (Rejected e, s) \<Rightarrow> (Rejected e, s))"

definition promise_catch ::
  "(error \<Rightarrow> state \<Rightarrow> state) \<Rightarrow> 'a settled \<times> state \<Rightarrow> unit settled \<times> state" where
  "promise_catch g ps =
     (case ps of
        (Fulfilled v, s) \<Rightarrow> (Fulfilled (), s)
      | (Rejected e, s) \<Rightarrow> (Fulfilled (), g e s))"

definition end_of_chain :: "'a settled \<times> state \<Rightarrow> state" where
  "end_of_chain ps =
     (case ps of
        (Fulfilled v, s) \<Rightarrow> s
      | (Rejected e, s) \<Rightarrow> s\<lparr>unhandled := unhandled s @ [e]\<rparr>)"

subsection \<open>The script\<close>

text \<open>
  The process starts with nothing but the database's tables. The calls of
  \<^verbatim>\<open>index.js\<close> follow, each as the change it makes when it is called: \<^verbatim>\<open>express()\<close>
  gives an application with an empty route stack, \<^verbatim>\<open>define\<close> registers the model, and
  \<^verbatim>\<open>authenticate\<close>, \<^verbatim>\<open>sync\<close> and \<^verbatim>\<open>listen\<close> hand a call to the library.
\<close>

definition start :: "environment \<Rightarrow> state" where
  "start env =
     \<lparr>routes = [], models = [], issued = [], pending = [], listening = [], console = [],
      responses = [], unhandled = [], db = initial_db env\<rparr>"

definition express :: "state \<Rightarrow> state" where
  "express s = s\<lparr>routes := []\<rparr>"

definition issue :: "call \<Rightarrow> state \<Rightarrow> state" where
  "issue c s = s\<lparr>issued := issued s @ [c], pending := pending s @ [c]\<rparr>"

definition authenticate :: "config \<Rightarrow> state \<Rightarrow> state" where
  "authenticate sequelize s = issue (Authenticate sequelize) s"

definition register :: "model \<Rightarrow> state \<Rightarrow> state" where
  "register m s = s\<lparr>models := models s @ [m]\<rparr>"

definition sync :: "environment \<Rightarrow> config \<Rightarrow> model \<Rightarrow> sync_options \<Rightarrow> state \<Rightarrow> state" where
  "sync env sequelize m opts s =
     issue (Sync sequelize (getTableName (pluralize env) m) (columns m) opts) s"

definition listen :: "nat \<Rightarrow> state \<Rightarrow> state" where
  "listen port s = (issue (Listen port) s)\<lparr>listening := listening s @ [port]\<rparr>"

text \<open>
  The synchronous part, top to bottom: \<^verbatim>\<open>express()\<close>, \<^verbatim>\<open>new Sequelize(config)\<close>,
  \<^verbatim>\<open>sequelize.authenticate()\<close>, \<^verbatim>\<open>sequelize.define("user", ...)\<close>,
  \<^verbatim>\<open>User.sync({alter:true})\<close>, \<^verbatim>\<open>app.listen(3000, ...)\<close>. No route is pushed on the
  application's stack anywhere in the script.
\<close>

definition main :: "environment \<Rightarrow> state" where
  "main env =
     (let app = express (start env);
          sequelize = development env;
          s1 = authenticate sequelize app;
          s2 = register User s1;
          s3 = sync env sequelize User \<lparr>force = None, alter = Some True\<rparr> s2
      in listen 3000 s3)"

text \<open>
  The callbacks, run when the call settles: lines 12 and 13 for the connection test,
  lines 53 and 54 for the synchronisation, line 59 for the listen.
\<close>

fun settle :: "environment \<Rightarrow> call \<Rightarrow> state \<Rightarrow> state" where
  "settle env (Authenticate cfg) s =
     end_of_chain
       (promise_catch (\<lambda>err. console_log [Str ''Database Connection Failed'', Err err])
         (promise_then (\<lambda>u. console_log [Str ''Database Connected''])
           (case authenticate_result env of
              None \<Rightarrow> (Fulfilled (), s)
            | Some e \<Rightarrow> (Rejected e, s))))"
| "settle env (Sync cfg tbl cs opts) s =
     end_of_chain
       (promise_catch (\<lambda>err. console_log [Err err])
         (promise_then (\<lambda>data. console_log [Str ''Model Created''])
           (case sync_result env of
              None \<Rightarrow> (Fulfilled (), s\<lparr>db := (db s)(tbl \<mapsto> sync_table opts cs (db s tbl))\<rparr>)
            | Some e \<Rightarrow> (Rejected e, s))))"
| "settle env (Listen port) s = console_log [Str ''Server is running on port 3000''] s"

text \<open>
  One event: a pending call of the event's kind settles (an event with no such call
  pending changes nothing), or a request arrives and the application answers it.
\<close>

fun step :: "environment \<Rightarrow> state \<Rightarrow> event \<Rightarrow> state" where
  "step env s (Incoming rq) =
     (case app_handle (routes s) rq (db s) of
        (rs, d) \<Rightarrow> s\<lparr>responses := responses s @ [(rq, rs)], db := d\<rparr>)"
| "step env s ev =
     (case find (\<lambda>c. settles c = ev) (pending s) of
        None \<Rightarrow> s
      | Some c \<Rightarrow> settle env c (s\<lparr>pending := remove1 c (pending s)\<rparr>))"

definition run :: "environment \<Rightarrow> state" where
  "run env = foldl (step env) (main env) (schedule env)"

section \<open>Notions the properties are stated with\<close>

text \<open>
  The non-null usernames of a table, and the invariant that no two rows share one
  (a unique index does not compare \<open>NULL\<close>s).
\<close>

definition usernames :: "table \<Rightarrow> val list" where
  "usernames t = filter (\<lambda>v. v \<noteq> Null) (map (\<lambda>r. field r ''username'') (rows t))"

definition unique_usernames :: "table \<Rightarrow> bool" where
  "unique_usernames t = distinct (usernames t)"

definition unique_in :: "db_state \<Rightarrow> bool" where
  "unique_in d = (case d ''user'' of None \<Rightarrow> True | Some t \<Rightarrow> unique_usernames t)"

text \<open>The dialect and the table a synchronisation call goes to.\<close>

fun target :: "call \<Rightarrow> (string \<times> string) option" where
  "target (Sync cfg tbl cs opts) = Some (dialect cfg, tbl)"
| "target c = None"

text \<open>
  The state after the script and a list of events, and what the proofs below show it to
  be: the three calls the script issues, those of them still pending, the requests
  among the events, the line each settled call logs, and the database once the
  synchronisation has succeeded.
\<close>

definition after :: "environment \<Rightarrow> event list \<Rightarrow> state" where
  "after env evs = foldl (step env) (main env) evs"

definition calls :: "environment \<Rightarrow> call list" where
  "calls env =
     [Authenticate (development env),
      Sync (development env) ''user'' (columns User) \<lparr>force = None, alter = Some True\<rparr>,
      Listen 3000]"

fun call_of :: "environment \<Rightarrow> event \<Rightarrow> call" where
  "call_of env AuthenticateSettled = Authenticate (development env)"
| "call_of env SyncSettled =
     Sync (development env) ''user'' (columns User) \<lparr>force = None, alter = Some True\<rparr>"
| "call_of env ev = Listen 3000"

definition still_pending :: "environment \<Rightarrow> event list \<Rightarrow> call list" where
  "still_pending env xs = filter (\<lambda>c. settles c \<notin> set xs) (calls env)"

definition settled_events :: "event set" where
  "settled_events = {AuthenticateSettled, SyncSettled, ListenCallback}"

fun requests :: "event list \<Rightarrow> request list" where
  "requests [] = []"
| "requests (Incoming rq # evs) = rq # requests evs"
| "requests (ev # evs) = requests evs"

fun line :: "environment \<Rightarrow> event \<Rightarrow> log_arg list" where
  "line env AuthenticateSettled =
     (case authenticate_result env of
        None \<Rightarrow> [Str ''Database Connected'']
      | Some e \<Rightarrow> [Str ''Database Connection Failed'', Err e])"
| "line env SyncSettled =
     (case sync_result env of None \<Rightarrow> [Str ''Model Created''] | Some e \<Rightarrow> [Err e])"
| "line env ev = [Str ''Server is running on port 3000'']"

definition synced :: "environment \<Rightarrow> db_state" where
  "synced env =
     (initial_db env)(''user'' \<mapsto>
        sync_table \<lparr>force = None, alter = Some True\<rparr> (columns User) (initial_db env ''user''))"

definition reached :: "environment \<Rightarrow> event list \<Rightarrow> state \<Rightarrow> bool" where
  "reached env xs s =
     (routes s = [] \<and> models s = [User] \<and> issued s = calls env
      \<and> pending s = still_pending env xs \<and> listening s = [3000] \<and> unhandled s = []
      \<and> responses s = map (\<lambda>rq. (rq, finalhandler rq)) (requests xs)
      \<and> db s = (if SyncSettled \<in> set xs \<and> sync_result env = None then synced env
                else initial_db env)
      \<and> set (console s) = line env ` (set xs \<inter> settled_events))"

subsection \<open>Concrete inputs\<close>

text \<open>
  A configuration for a local MySQL server, an environment built around it, a table
  \<open>user\<close> that holds one row, the row a second user would get, and one request for
  each of the five paths.
\<close>

definition example_config :: config where
  "example_config =
     \<lparr>username = ''root'', password = ''secret'', database = ''tutorial'',
      host = ''127.0.0.1'', dialect = ''mysql''\<rparr>"

definition example_env ::
  "error option \<Rightarrow> error option \<Rightarrow> db_state \<Rightarrow> event list \<Rightarrow> environment" where
  "example_env a s d evs =
     \<lparr>development = example_config, pluralize = (\<lambda>n. n @ ''s''), authenticate_result = a,
      sync_result = s, initial_db = d, schedule = evs\<rparr>"

definition refused :: error where
  "refused = ConnectionError ''connect ECONNREFUSED 127.0.0.1:3306''"

definition alice :: row where
  "alice = [(''id'', IntV 1), (''username'', StrV ''alice''), (''password'', StrV ''pw''),
            (''age'', IntV 30)]"

definition one_user :: table where
  "one_user = \<lparr>cols = columns User, rows = [alice], auto_increment = 2\<rparr>"

definition bob_row :: row where
  "bob_row = [(''id'', IntV 2), (''username'', StrV ''bob''), (''password'', StrV ''pw2''),
              (''age'', IntV 22)]"

definition post_users :: request where
  "post_users =
     \<lparr>req_method = POST, req_path = [''users''],
      req_body = [(''username'', StrV ''bob''), (''password'', StrV ''pw2'')]\<rparr>"

definition get_users :: request where
  "get_users = \<lparr>req_method = GET, req_path = [''users''], req_body = []\<rparr>"

definition get_user :: request where
  "get_user = \<lparr>req_method = GET, req_path = [''users'', ''1''], req_body = []\<rparr>"

definition put_user :: request where
  "put_user =
     \<lparr>req_method = PUT, req_path = [''users'', ''1''],
      req_body = [(''username'', StrV ''bob''), (''age'', IntV 31)]\<rparr>"

definition delete_user :: request where
  "delete_user = \<lparr>req_method = DELETE, req_path = [''users'', ''1''], req_body = []\<rparr>"

section \<open>The model, unfolded\<close>

lemma User_columns:
  "columns User =
     [(''id'',
         \<lparr>type = INTEGER, autoIncrement = Some True, primaryKey = Some True,
          allowNull = None, unique = None, defaultValue = None\<rparr>),
      (''username'',
         \<lparr>type = STRING, autoIncrement = None, primaryKey = None,
          allowNull = Some False, unique = Some True, defaultValue = None\<rparr>),
      (''password'',
         \<lparr>type = STRING, autoIncrement = None, primaryKey = None,
          allowNull = None, unique = None, defaultValue = None\<rparr>),
      (''age'',
         \<lparr>type = INTEGER, autoIncrement = None, primaryKey = None,
          allowNull = None, unique = None, defaultValue = Some (IntV 22)\<rparr>)]"
  by (simp add: columns_def User_def sequelize_define_def)

lemma User_options: "timestamps (options User) = Some False" "modelName User = ''user''"
  by (simp_all add: User_def sequelize_define_def)

lemma getTableName_User: "getTableName pl User = ''user''"
  by (simp add: getTableName_def User_def sequelize_define_def)

lemma build_User:
  "build User vals now =
     [(''id'', case map_of vals ''id'' of Some v \<Rightarrow> v | None \<Rightarrow> Null),
      (''username'', case map_of vals ''username'' of Some v \<Rightarrow> v | None \<Rightarrow> Null),
      (''password'', case map_of vals ''password'' of Some v \<Rightarrow> v | None \<Rightarrow> Null),
      (''age'', case map_of vals ''age'' of Some v \<Rightarrow> v | None \<Rightarrow> IntV 22)]"
  by (simp add: build_def User_columns User_options split: option.split)

lemma numbered_User:
  "numbered User n r =
     [(''id'', if field r ''id'' = Null then IntV n else field r ''id''),
      (''username'', field r ''username''),
      (''password'', field r ''password''),
      (''age'', field r ''age'')]"
  by (simp add: numbered_def User_columns)

text \<open>
  \<open>create\<close> on the model of the script, check by check: the username must be there,
  the id (the counter's value unless one is given) and the username must be new.
\<close>

lemma create_User:
  "create User t vals now =
     (let r = [(''id'', if field vals ''id'' = Null then IntV (auto_increment t)
                        else field vals ''id''),
               (''username'', field vals ''username''),
               (''password'', field vals ''password''),
               (''age'', case map_of vals ''age'' of Some v \<Rightarrow> v | None \<Rightarrow> IntV 22)]
      in if field vals ''username'' = Null
         then Inl (ValidationError ''user.username cannot be null'')
         else if list_ex (\<lambda>r'. field r' ''id'' = field r ''id'') (rows t)
         then Inl (UniqueConstraintError ''id'')
         else if list_ex (\<lambda>r'. field r' ''username'' = field vals ''username'') (rows t)
         then Inl (UniqueConstraintError ''username'')
         else Inr (r, t\<lparr>rows := rows t @ [r],
                        auto_increment := (case field r ''id'' of
                                             IntV i \<Rightarrow> max (auto_increment t) (i + 1)
                                           | _ \<Rightarrow> auto_increment t)\<rparr>))"
  by (simp add: create_def build_User numbered_User User_columns User_options Let_def
      notNull_violation_def duplicate_def next_auto_increment_def field_def
      split: option.split)

lemma create_appends:
  assumes "create User t vals now = Inr (r, t')"
  shows "rows t' = rows t @ [r]"
    and "field r ''username'' = field vals ''username''"
    and "field vals ''username'' \<noteq> Null"
    and "\<not> list_ex (\<lambda>r'. field r' ''username'' = field vals ''username'') (rows t)"
    and "\<not> list_ex (\<lambda>r'. field r' ''id'' = field r ''id'') (rows t)"
    and "field r ''password'' = field vals ''password''"
    and "map fst r = [''id'', ''username'', ''password'', ''age'']"
  using assms by (auto simp: create_User Let_def field_def split: if_splits)

lemma create_id:
  assumes "create User t vals now = Inr (r, t')" and "field vals ''id'' = Null"
  shows "field r ''id'' = IntV (auto_increment t)" and "auto_increment t < auto_increment t'"
  using assms by (auto simp: create_User Let_def field_def split: if_splits)

lemma create_age:
  assumes "create User t vals now = Inr (r, t')" and "map_of vals ''age'' = None"
  shows "field r ''age'' = IntV 22"
  using assms by (auto simp: create_User Let_def field_def split: if_splits)

lemma alter_row_username:
  "field (alter_row (columns User) r) ''username'' = field r ''username''"
  by (simp add: alter_row_def User_columns field_def split: option.split)

lemma alter_row_names: "map fst (alter_row cs r) = map fst cs"
  by (simp add: alter_row_def case_prod_unfold comp_def)

lemma usernames_sync:
  "usernames (sync_table \<lparr>force = None, alter = Some True\<rparr> (columns User) (Some t)) =
     usernames t"
  by (simp add: sync_table_def usernames_def alter_row_username comp_def)

lemma rows_sync:
  "length (rows (sync_table \<lparr>force = None, alter = Some True\<rparr> (columns User) (Some t))) =
     length (rows t)"
  by (simp add: sync_table_def)

lemma unique_sync_table:
  "(case old of None \<Rightarrow> True | Some t \<Rightarrow> unique_usernames t) \<Longrightarrow>
   unique_usernames (sync_table \<lparr>force = None, alter = Some True\<rparr> (columns User) old)"
proof (cases old)
  case None
  then show ?thesis
    by (simp add: sync_table_def create_table_def unique_usernames_def usernames_def)
next
  case (Some t)
  assume "case old of None \<Rightarrow> True | Some t \<Rightarrow> unique_usernames t"
  with Some show ?thesis
    by (simp add: unique_usernames_def usernames_sync)
qed

lemma unique_in_synced: "unique_in (initial_db env) \<Longrightarrow> unique_in (synced env)"
  by (simp add: unique_in_def synced_def unique_sync_table)

section \<open>Every state the process reaches\<close>

lemma main_eq:
  "main env =
     \<lparr>routes = [], models = [User], issued = calls env, pending = calls env,
      listening = [3000], console = [], responses = [], unhandled = [],
      db = initial_db env\<rparr>"
  by (simp add: main_def Let_def listen_def sync_def register_def authenticate_def issue_def
      express_def start_def calls_def getTableName_User)

lemma requests_append: "requests (xs @ ys) = requests xs @ requests ys"
  by (induction xs rule: requests.induct) simp_all

lemma settle_frame:
  "routes (settle env c s) = routes s"
  "models (settle env c s) = models s"
  "issued (settle env c s) = issued s"
  "pending (settle env c s) = pending s"
  "listening (settle env c s) = listening s"
  "responses (settle env c s) = responses s"
  "unhandled (settle env c s) = unhandled s"
  by (cases c; simp add: end_of_chain_def promise_catch_def promise_then_def console_log_def
      split: option.split)+

lemma settle_db:
  "db (settle env c s) =
     (case c of
        Sync cfg tbl cs opts \<Rightarrow>
          (if sync_result env = None then (db s)(tbl \<mapsto> sync_table opts cs (db s tbl))
           else db s)
      | _ \<Rightarrow> db s)"
  by (cases c; simp add: end_of_chain_def promise_catch_def promise_then_def console_log_def
      split: option.split)

lemma settle_console: "console (settle env c s) = console s @ [line env (settles c)]"
  by (cases c; simp add: end_of_chain_def promise_catch_def promise_then_def console_log_def
      split: option.split)

lemma after_snoc: "after env (xs @ [ev]) = step env (after env xs) ev"
  by (simp add: after_def)

lemma after_Nil: "after env [] = main env"
  by (simp add: after_def)

lemma run_after: "run env = after env (schedule env)"
  by (simp add: run_def after_def)

lemma step_Incoming:
  "routes s = [] \<Longrightarrow>
   step env s (Incoming rq) = s\<lparr>responses := responses s @ [(rq, finalhandler rq)]\<rparr>"
  by (simp add: app_handle_def)

lemma still_pending_Nil: "still_pending env [] = calls env"
  by (simp add: still_pending_def)

lemma find_settled:
  "ev \<in> set xs \<Longrightarrow> find (\<lambda>c. settles c = ev) (still_pending env xs) = None"
  by (auto simp: find_None_iff still_pending_def)

lemma still_pending_again:
  "ev \<in> set xs \<Longrightarrow> still_pending env (xs @ [ev]) = still_pending env xs"
  unfolding still_pending_def by (rule filter_cong) auto

lemma find_pending:
  "ev \<notin> set xs \<Longrightarrow> ev \<in> settled_events \<Longrightarrow>
   find (\<lambda>c. settles c = ev) (still_pending env xs) = Some (call_of env ev)"
  by (auto simp: still_pending_def calls_def settled_events_def)

lemma remove_pending:
  "ev \<notin> set xs \<Longrightarrow> ev \<in> settled_events \<Longrightarrow>
   remove1 (call_of env ev) (still_pending env xs) = still_pending env (xs @ [ev])"
  by (auto simp: still_pending_def calls_def settled_events_def)

lemma still_pending_Incoming:
  "still_pending env (xs @ [Incoming rq]) = still_pending env xs"
  by (auto simp: still_pending_def calls_def)

lemma settles_call_of: "ev \<in> settled_events \<Longrightarrow> settles (call_of env ev) = ev"
  by (auto simp: settled_events_def)

lemma step_settles:
  assumes "pending s = still_pending env xs" and "ev \<in> settled_events"
  shows "step env s ev =
     (if ev \<in> set xs then s
      else settle env (call_of env ev) (s\<lparr>pending := still_pending env (xs @ [ev])\<rparr>))"
proof (cases "ev \<in> set xs")
  case True
  with assms show ?thesis
    by (auto simp: find_settled settled_events_def)
next
  case False
  from assms(2) have "ev = AuthenticateSettled \<or> ev = SyncSettled \<or> ev = ListenCallback"
    by (simp add: settled_events_def)
  with False assms show ?thesis
    by (auto simp: find_pending remove_pending simp del: call_of.simps)
qed

lemma reached_main: "reached env [] (main env)"
  by (simp add: reached_def main_eq still_pending_Nil)

lemma reached_Incoming:
  assumes "reached env xs s"
  shows "reached env (xs @ [Incoming rq]) (step env s (Incoming rq))"
proof -
  from assms have r: "routes s = []" by (simp add: reached_def)
  have e: "set (xs @ [Incoming rq]) \<inter> settled_events = set xs \<inter> settled_events"
    by (auto simp: settled_events_def)
  show ?thesis
    using assms unfolding step_Incoming [OF r] reached_def e
    by (simp add: requests_append still_pending_Incoming)
qed

lemma requests_settled: "ev \<in> settled_events \<Longrightarrow> requests (xs @ [ev]) = requests xs"
  by (auto simp: requests_append settled_events_def)

lemma reached_again:
  assumes "reached env xs s" and "ev \<in> settled_events" and "ev \<in> set xs"
  shows "reached env (xs @ [ev]) (step env s ev)"
proof -
  from assms have p: "pending s = still_pending env xs" by (simp add: reached_def)
  have st: "step env s ev = s" using step_settles [OF p assms(2)] assms(3) by simp
  have e: "set (xs @ [ev]) = set xs" using assms(3) by auto
  show ?thesis
    using assms(1)
    unfolding st reached_def e requests_settled [OF assms(2)] still_pending_again [OF assms(3)]
    by simp
qed

lemma reached_first:
  assumes "reached env xs s" and "ev \<in> settled_events" and "ev \<notin> set xs"
  shows "reached env (xs @ [ev]) (step env s ev)"
proof -
  from assms have p: "pending s = still_pending env xs" by (simp add: reached_def)
  have k: "ev = AuthenticateSettled \<or> ev = SyncSettled \<or> ev = ListenCallback"
    using assms(2) by (simp add: settled_events_def)
  have st: "step env s ev =
      settle env (call_of env ev) (s\<lparr>pending := still_pending env (xs @ [ev])\<rparr>)"
    using step_settles [OF p assms(2)] assms(3) by simp
  have e: "set (xs @ [ev]) \<inter> settled_events = insert ev (set xs \<inter> settled_events)"
    using assms(2) by auto
  have d: "db (settle env (call_of env ev) (s\<lparr>pending := still_pending env (xs @ [ev])\<rparr>)) =
      (if SyncSettled \<in> set (xs @ [ev]) \<and> sync_result env = None then synced env
       else initial_db env)"
    using assms(1,3) k by (auto simp: settle_db reached_def synced_def)
  show ?thesis
    using assms(1) unfolding st reached_def requests_settled [OF assms(2)] e
    by (simp add: settle_frame settle_console settles_call_of [OF assms(2)] d)
qed

lemma reached_after: "reached env xs (after env xs)"
proof (induction xs rule: rev_induct)
  case Nil
  show ?case by (simp add: after_Nil reached_main)
next
  case (snoc ev xs)
  show ?case
  proof (cases ev)
    case (Incoming rq)
    with snoc show ?thesis by (simp add: after_snoc reached_Incoming del: step.simps)
  next
    case AuthenticateSettled
    with snoc show ?thesis
      by (cases "ev \<in> set xs")
        (simp_all add: after_snoc reached_again reached_first settled_events_def
          del: step.simps)
  next
    case SyncSettled
    with snoc show ?thesis
      by (cases "ev \<in> set xs")
        (simp_all add: after_snoc reached_again reached_first settled_events_def
          del: step.simps)
  next
    case ListenCallback
    with snoc show ?thesis
      by (cases "ev \<in> set xs")
        (simp_all add: after_snoc reached_again reached_first settled_events_def
          del: step.simps)
  qed
qed

lemma run_reached: "reached env (schedule env) (run env)"
  by (simp add: run_after reached_after)

lemma run_routes: "routes (run env) = []"
  using run_reached [of env] by (simp add: reached_def)

lemma run_issued: "issued (run env) = calls env"
  using run_reached [of env] by (simp add: reached_def)

lemma run_listening: "listening (run env) = [3000]"
  using run_reached [of env] by (simp add: reached_def)

lemma run_unhandled: "unhandled (run env) = []"
  using run_reached [of env] by (simp add: reached_def)

lemma run_responses:
  "responses (run env) = map (\<lambda>rq. (rq, finalhandler rq)) (requests (schedule env))"
  using run_reached [of env] by (simp add: reached_def)

lemma run_db:
  "db (run env) =
     (if SyncSettled \<in> set (schedule env) \<and> sync_result env = None then synced env
      else initial_db env)"
  using run_reached [of env] by (simp add: reached_def)

lemma run_console:
  "set (console (run env)) = line env ` (set (schedule env) \<inter> settled_events)"
  using run_reached [of env] by (simp add: reached_def)

lemma step_run_Incoming:
  "step env (run env) (Incoming rq) =
     (run env)\<lparr>responses := responses (run env) @ [(rq, finalhandler rq)]\<rparr>"
  by (rule step_Incoming) (rule run_routes)

lemma finalhandler_users:
  "finalhandler \<lparr>req_method = m, req_path = [''users'', i], req_body = b\<rparr> =
     \<lparr>status = 404, content = Html (''Cannot '' @ method_name m @ '' /users/'' @ i)\<rparr>"
  by (simp add: finalhandler_def url_def)

lemma unique_in_run: "unique_in (initial_db env) \<Longrightarrow> unique_in (db (run env))"
  by (simp add: run_db unique_in_synced)

lemma settled_logged:
  "ev \<in> set (schedule env) \<Longrightarrow> ev \<in> settled_events \<Longrightarrow>
   line env ev \<in> set (console (run env))"
  by (simp add: run_console)

section \<open>The HTTP layer\<close>

text \<open>
  C1. The specification gives the program five routes (\<^verbatim>\<open>POST /users\<close>,
  \<^verbatim>\<open>GET /users\<close>, \<^verbatim>\<open>GET /users/:id\<close>, \<^verbatim>\<open>PUT /users/:id\<close>,
  \<^verbatim>\<open>DELETE /users/:id\<close>), each delegating to the data-access layer, answering in JSON
  and turning a thrown error into a 500. The script registers no route at all: whatever
  the environment does, the application's stack is empty after any run, so every
  request, to these five paths as to any other, is answered by the framework's final
  handler with status 404 and leaves the database as it was; the responses of a run are
  exactly these 404 pages, one per request.
\<close>

theorem no_route_registered:
  "routes (run env) = []
   \<and> app_handle (routes (run env)) rq d = (finalhandler rq, d)
   \<and> status (finalhandler rq) = 404
   \<and> responses (run env) = map (\<lambda>rq. (rq, finalhandler rq)) (requests (schedule env))"
  by (simp add: run_routes run_responses app_handle_def finalhandler_def)

text \<open>
  The claim fails on one request to each of the five paths, with a row of id 1 in the
  table: all five are answered 404 with the framework's page.
\<close>

theorem five_routes_counterexample:
  "routes (run (example_env None None [''user'' \<mapsto> one_user]
      (map Incoming [post_users, get_users, get_user, put_user, delete_user]))) = []
   \<and> responses (run (example_env None None [''user'' \<mapsto> one_user]
      (map Incoming [post_users, get_users, get_user, put_user, delete_user]))) =
     [(post_users, \<lparr>status = 404, content = Html ''Cannot POST /users''\<rparr>),
      (get_users, \<lparr>status = 404, content = Html ''Cannot GET /users''\<rparr>),
      (get_user, \<lparr>status = 404, content = Html ''Cannot GET /users/1''\<rparr>),
      (put_user, \<lparr>status = 404, content = Html ''Cannot PUT /users/1''\<rparr>),
      (delete_user, \<lparr>status = 404, content = Html ''Cannot DELETE /users/1''\<rparr>)]"
  by code_simp

text \<open>
  C2. The specification says that update-by-id answers not found when no row has the id
  and otherwise overwrites the username and age of the row and returns it. In the script
  \<^verbatim>\<open>PUT /users/:id\<close> has no handler: for every id, whether a row has it or not, a
  request at any point of any run is answered 404 by the final handler, and nothing but
  the list of responses changes; no field of any row (username, age, password, id) is
  written.
\<close>

theorem update_unrouted:
  "step env (run env) (Incoming \<lparr>req_method = PUT, req_path = [''users'', i], req_body = b\<rparr>) =
     (run env)\<lparr>responses := responses (run env) @
        [(\<lparr>req_method = PUT, req_path = [''users'', i], req_body = b\<rparr>,
          \<lparr>status = 404, content = Html (''Cannot PUT /users/'' @ i)\<rparr>)]\<rparr>"
  by (simp add: step_run_Incoming finalhandler_users del: step.simps)

text \<open>
  With the row of id 1 in the table, \<^verbatim>\<open>PUT /users/1\<close> with a new username and age is
  answered 404 and the row keeps its username and its age.
\<close>

theorem update_counterexample:
  "db (main (example_env None None [''user'' \<mapsto> one_user] [Incoming put_user])) ''user'' =
     Some \<lparr>cols = columns User, rows = [alice], auto_increment = 2\<rparr>
   \<and> field alice ''id'' = IntV 1
   \<and> responses (run (example_env None None [''user'' \<mapsto> one_user] [Incoming put_user])) =
     [(put_user, \<lparr>status = 404, content = Html ''Cannot PUT /users/1''\<rparr>)]
   \<and> db (run (example_env None None [''user'' \<mapsto> one_user] [Incoming put_user])) ''user'' =
     Some \<lparr>cols = columns User,
           rows = [[(''id'', IntV 1), (''username'', StrV ''alice''),
                    (''password'', StrV ''pw''), (''age'', IntV 30)]],
           auto_increment = 2\<rparr>"
  by code_simp

text \<open>
  C3. The specification says that the create operation fails on a missing or taken
  username and on success returns the created record with a generated id, so that
  usernames stay unique. The script has no create operation: \<^verbatim>\<open>POST /users\<close> has no
  handler, so for every body, with the username missing, taken or new, a request at
  any point of any run is answered 404 by the final handler and changes nothing but
  the list of responses; no record is created or returned and no id is generated. No
  run adds a row or changes a username: a table \<open>user\<close> that exists keeps its number of
  rows and its usernames, and one that does not exist is at most created empty. So
  uniqueness of usernames is kept by every run. What the script does declare is the
  column: \<open>username\<close> is a string with \<open>allowNull: false\<close> and \<open>unique: true\<close>.
\<close>

theorem create_unrouted:
  "step env (run env) (Incoming \<lparr>req_method = POST, req_path = [''users''], req_body = b\<rparr>) =
     (run env)\<lparr>responses := responses (run env) @
        [(\<lparr>req_method = POST, req_path = [''users''], req_body = b\<rparr>,
          \<lparr>status = 404, content = Html ''Cannot POST /users''\<rparr>)]\<rparr>
   \<and> (initial_db env ''user'' = Some t \<longrightarrow>
        map_option usernames (db (run env) ''user'') = Some (usernames t)
        \<and> map_option (\<lambda>u. length (rows u)) (db (run env) ''user'') = Some (length (rows t)))
   \<and> (initial_db env0 ''user'' = None \<longrightarrow>
        db (run env0) ''user'' = None \<or> map_option rows (db (run env0) ''user'') = Some [])
   \<and> (unique_in (initial_db env) \<longrightarrow> unique_in (db (run env)))
   \<and> map_of (rawAttributes User) ''username'' =
        Some \<lparr>type = STRING, autoIncrement = None, primaryKey = None,
              allowNull = Some False, unique = Some True, defaultValue = None\<rparr>"
proof -
  have a: "step env (run env)
      (Incoming \<lparr>req_method = POST, req_path = [''users''], req_body = b\<rparr>) =
     (run env)\<lparr>responses := responses (run env) @
        [(\<lparr>req_method = POST, req_path = [''users''], req_body = b\<rparr>,
          \<lparr>status = 404, content = Html ''Cannot POST /users''\<rparr>)]\<rparr>"
    by (simp add: step_run_Incoming finalhandler_def url_def del: step.simps)
  have b: "initial_db env ''user'' = Some t \<longrightarrow>
        map_option usernames (db (run env) ''user'') = Some (usernames t)
        \<and> map_option (\<lambda>u. length (rows u)) (db (run env) ''user'') = Some (length (rows t))"
    by (simp add: run_db synced_def usernames_sync rows_sync)
  have c: "initial_db env0 ''user'' = None \<longrightarrow>
        db (run env0) ''user'' = None \<or> map_option rows (db (run env0) ''user'') = Some []"
    by (simp add: run_db synced_def sync_table_def create_table_def)
  have d: "unique_in (initial_db env) \<longrightarrow> unique_in (db (run env))"
    using unique_in_run by blast
  have e: "map_of (rawAttributes User) ''username'' =
        Some \<lparr>type = STRING, autoIncrement = None, primaryKey = None,
              allowNull = Some False, unique = Some True, defaultValue = None\<rparr>"
    by (simp add: User_def sequelize_define_def)
  from a b c d e show ?thesis by blast
qed

text \<open>
  The table that holds alice, synchronised and then sent bob's \<^verbatim>\<open>POST /users\<close>, and
  the same run on a database without the table.
\<close>

theorem create_unrouted_witness:
  "initial_db (example_env None None [''user'' \<mapsto> one_user] [SyncSettled, Incoming post_users])
       ''user'' = Some one_user
   \<and> map_option usernames
        (db (run (example_env None None [''user'' \<mapsto> one_user]
           [SyncSettled, Incoming post_users])) ''user'') = Some [StrV ''alice'']
   \<and> map_option (\<lambda>u. length (rows u))
        (db (run (example_env None None [''user'' \<mapsto> one_user]
           [SyncSettled, Incoming post_users])) ''user'') = Some 1
   \<and> initial_db (example_env None None Map.empty [SyncSettled, Incoming post_users]) ''user'' =
        None
   \<and> map_option rows
        (db (run (example_env None None Map.empty [SyncSettled, Incoming post_users])) ''user'') =
        Some []
   \<and> unique_in
        (initial_db (example_env None None [''user'' \<mapsto> one_user]
           [SyncSettled, Incoming post_users]))
   \<and> unique_in
        (db (run (example_env None None [''user'' \<mapsto> one_user]
           [SyncSettled, Incoming post_users])))"
proof -
  have u: "usernames one_user = [StrV ''alice''] \<and> length (rows one_user) = 1"
    by (simp add: usernames_def one_user_def alice_def field_def)
  have h1: "initial_db (example_env None None [''user'' \<mapsto> one_user]
        [SyncSettled, Incoming post_users]) ''user'' = Some one_user"
    by (simp add: example_env_def)
  have h2: "initial_db (example_env None None Map.empty [SyncSettled, Incoming post_users])
        ''user'' = None"
    by (simp add: example_env_def)
  have h3: "unique_in (initial_db (example_env None None [''user'' \<mapsto> one_user]
        [SyncSettled, Incoming post_users]))"
    using u by (simp add: example_env_def unique_in_def unique_usernames_def)
  have e: "map_option rows
        (db (run (example_env None None Map.empty [SyncSettled, Incoming post_users])) ''user'') =
        Some []"
    by code_simp
  show ?thesis
    using create_unrouted
      [where env = "example_env None None [''user'' \<mapsto> one_user]
          [SyncSettled, Incoming post_users]"
        and t = one_user
        and env0 = "example_env None None Map.empty [SyncSettled, Incoming post_users]"]
      u h1 h2 h3 e
    by simp
qed

text \<open>
  With alice in the table, \<^verbatim>\<open>POST /users\<close> for the new username bob is answered 404
  and the table still holds alice alone: nothing was created.
\<close>

theorem create_counterexample:
  "field (req_body post_users) ''username'' = StrV ''bob''
   \<and> map_option usernames
        (db (main (example_env None None [''user'' \<mapsto> one_user] [Incoming post_users]))
           ''user'') = Some [StrV ''alice'']
   \<and> responses (run (example_env None None [''user'' \<mapsto> one_user] [Incoming post_users])) =
     [(post_users, \<lparr>status = 404, content = Html ''Cannot POST /users''\<rparr>)]
   \<and> map_option rows
        (db (run (example_env None None [''user'' \<mapsto> one_user] [Incoming post_users]))
           ''user'') = Some [alice]"
  by code_simp

text \<open>
  C4. The specification says that \<^verbatim>\<open>GET /users/:id\<close> answers 404 for an id without a
  row and returns the row for an id that has one. The script has no handler for it: for
  every id, with or without a row, a request at any point of any run is answered 404 by
  the final handler, and no row is ever returned.
\<close>

theorem read_unrouted:
  "step env (run env) (Incoming \<lparr>req_method = GET, req_path = [''users'', i], req_body = b\<rparr>) =
     (run env)\<lparr>responses := responses (run env) @
        [(\<lparr>req_method = GET, req_path = [''users'', i], req_body = b\<rparr>,
          \<lparr>status = 404, content = Html (''Cannot GET /users/'' @ i)\<rparr>)]\<rparr>"
  by (simp add: step_run_Incoming finalhandler_users del: step.simps)

text \<open>With the row of id 1 in the table, \<^verbatim>\<open>GET /users/1\<close> is answered 404.\<close>

theorem read_counterexample:
  "map_option rows
     (db (main (example_env None None [''user'' \<mapsto> one_user] [Incoming get_user])) ''user'') =
     Some [alice]
   \<and> field alice ''id'' = IntV 1
   \<and> responses (run (example_env None None [''user'' \<mapsto> one_user] [Incoming get_user])) =
     [(get_user, \<lparr>status = 404, content = Html ''Cannot GET /users/1''\<rparr>)]"
  by code_simp

text \<open>
  C5. The specification says that deleting an existing id removes the row and returns a
  confirmation message, so that a read of the same id then answers 404. In the script
  the read after the delete does answer 404, but so does the delete itself: neither has
  a handler, both get the final handler's page, and the two requests change nothing but
  the list of responses, so the row is still there.
\<close>

theorem delete_then_read_unrouted:
  "step env
     (step env (run env)
        (Incoming \<lparr>req_method = DELETE, req_path = [''users'', i], req_body = b\<rparr>))
     (Incoming \<lparr>req_method = GET, req_path = [''users'', i], req_body = b'\<rparr>) =
     (run env)\<lparr>responses := responses (run env) @
        [(\<lparr>req_method = DELETE, req_path = [''users'', i], req_body = b\<rparr>,
          \<lparr>status = 404, content = Html (''Cannot DELETE /users/'' @ i)\<rparr>),
         (\<lparr>req_method = GET, req_path = [''users'', i], req_body = b'\<rparr>,
          \<lparr>status = 404, content = Html (''Cannot GET /users/'' @ i)\<rparr>)]\<rparr>"
proof -
  have r: "routes ((run env)\<lparr>responses := rs\<rparr>) = []" for rs
    by (simp add: run_routes)
  show ?thesis
    unfolding step_run_Incoming step_Incoming [OF r] finalhandler_users by simp
qed

text \<open>
  With the row of id 1 in the table, \<^verbatim>\<open>DELETE /users/1\<close> and then \<^verbatim>\<open>GET /users/1\<close>
  are both answered 404 and the table still holds the row.
\<close>

theorem delete_counterexample:
  "map_option rows
     (db (main (example_env None None [''user'' \<mapsto> one_user]
        [Incoming delete_user, Incoming get_user])) ''user'') = Some [alice]
   \<and> field alice ''id'' = IntV 1
   \<and> responses (run (example_env None None [''user'' \<mapsto> one_user]
        [Incoming delete_user, Incoming get_user])) =
     [(delete_user, \<lparr>status = 404, content = Html ''Cannot DELETE /users/1''\<rparr>),
      (get_user, \<lparr>status = 404, content = Html ''Cannot GET /users/1''\<rparr>)]
   \<and> map_option rows
     (db (run (example_env None None [''user'' \<mapsto> one_user]
        [Incoming delete_user, Incoming get_user])) ''user'') = Some [alice]"
  by code_simp

section \<open>Start-up\<close>

text \<open>
  C6. The specification says that every failure is caught at a route handler and turned
  into a 404 or a 500 with a logged message. The failures the script can meet are those
  of the connection test and of the synchronisation. Each is caught by the \<^verbatim>\<open>catch\<close>
  callback of its promise and logged: no run ends with an unhandled rejection, settling
  a call sends no response, a failed connection test that has settled has logged
  \<^verbatim>\<open>Database Connection Failed\<close> with the error, and a failed synchronisation the
  error. The only status any request is answered with is the final handler's 404.
\<close>

theorem failures_caught_by_promise:
  "unhandled (run env) = []
   \<and> unhandled (settle env c s) = unhandled s
   \<and> responses (settle env c s) = responses s
   \<and> (authenticate_result env = Some e \<and> AuthenticateSettled \<in> set (schedule env) \<longrightarrow>
        [Str ''Database Connection Failed'', Err e] \<in> set (console (run env)))
   \<and> (sync_result env = Some e' \<and> SyncSettled \<in> set (schedule env) \<longrightarrow>
        [Err e'] \<in> set (console (run env)))
   \<and> map (\<lambda>(rq, rs). status rs) (responses (run env)) =
        map (\<lambda>rq. 404) (requests (schedule env))"
proof -
  have a: "authenticate_result env = Some e \<and> AuthenticateSettled \<in> set (schedule env) \<longrightarrow>
        [Str ''Database Connection Failed'', Err e] \<in> set (console (run env))"
    using settled_logged [of AuthenticateSettled env] by (auto simp: settled_events_def)
  have b: "sync_result env = Some e' \<and> SyncSettled \<in> set (schedule env) \<longrightarrow>
        [Err e'] \<in> set (console (run env))"
    using settled_logged [of SyncSettled env] by (auto simp: settled_events_def)
  have c: "map (\<lambda>(rq, rs). status rs) (responses (run env)) =
        map (\<lambda>rq. 404) (requests (schedule env))"
    by (simp add: run_responses comp_def finalhandler_def)
  from a b c show ?thesis
    by (simp add: run_unhandled settle_frame)
qed

text \<open>Both calls refused by the database server, a request in between.\<close>

theorem failures_caught_by_promise_witness:
  "authenticate_result (example_env (Some refused) (Some refused) Map.empty
        [AuthenticateSettled, Incoming get_user, SyncSettled]) = Some refused
   \<and> AuthenticateSettled \<in> set (schedule (example_env (Some refused) (Some refused) Map.empty
        [AuthenticateSettled, Incoming get_user, SyncSettled]))
   \<and> sync_result (example_env (Some refused) (Some refused) Map.empty
        [AuthenticateSettled, Incoming get_user, SyncSettled]) = Some refused
   \<and> SyncSettled \<in> set (schedule (example_env (Some refused) (Some refused) Map.empty
        [AuthenticateSettled, Incoming get_user, SyncSettled]))
   \<and> [Str ''Database Connection Failed'', Err refused] \<in> set (console (run
        (example_env (Some refused) (Some refused) Map.empty
          [AuthenticateSettled, Incoming get_user, SyncSettled])))
   \<and> [Err refused] \<in> set (console (run
        (example_env (Some refused) (Some refused) Map.empty
          [AuthenticateSettled, Incoming get_user, SyncSettled])))
   \<and> unhandled (run (example_env (Some refused) (Some refused) Map.empty
        [AuthenticateSettled, Incoming get_user, SyncSettled])) = []"
  using failures_caught_by_promise
    [where env = "example_env (Some refused) (Some refused) Map.empty
        [AuthenticateSettled, Incoming get_user, SyncSettled]"
      and e = refused and e' = refused]
  by (simp add: example_env_def)

text \<open>
  With both calls refused, the two failures are on the console and no response was
  sent: they were caught where no route handler exists and became no HTTP status.
\<close>

theorem failures_counterexample:
  "routes (run (example_env (Some refused) (Some refused) Map.empty
      [AuthenticateSettled, SyncSettled])) = []
   \<and> console (run (example_env (Some refused) (Some refused) Map.empty
      [AuthenticateSettled, SyncSettled])) =
     [[Str ''Database Connection Failed'', Err refused], [Err refused]]
   \<and> responses (run (example_env (Some refused) (Some refused) Map.empty
      [AuthenticateSettled, SyncSettled])) = []"
  by code_simp

text \<open>
  C7. The script issues exactly three calls, one of them a synchronisation: of the
  table \<open>user\<close> (the model's name as it is, whatever plural the inflection library would
  form), over the connection made from the configuration (a MySQL one when the
  configuration's dialect says so), with \<open>alter\<close> set and \<open>force\<close> not. When it succeeds on
  an existing table, the table keeps its rows, each brought to the model's columns; a
  row that already has the four columns is kept as it is.
\<close>

theorem one_sync_alters_user:
  "issued (run env) =
     [Authenticate (development env),
      Sync (development env) ''user'' (columns User) \<lparr>force = None, alter = Some True\<rparr>,
      Listen 3000]
   \<and> getTableName pl User = ''user''
   \<and> (dialect (development env) = ''mysql'' \<longrightarrow>
        List.map_filter target (issued (run env)) = [(''mysql'', ''user'')])
   \<and> (sync_result env = None \<and> SyncSettled \<in> set (schedule env)
        \<and> initial_db env ''user'' = Some t \<longrightarrow>
        db (run env) ''user'' =
          Some (t\<lparr>cols := columns User, rows := map (alter_row (columns User)) (rows t)\<rparr>))
   \<and> alter_row (columns User)
        [(''id'', i), (''username'', u), (''password'', p), (''age'', a)] =
        [(''id'', i), (''username'', u), (''password'', p), (''age'', a)]"
proof -
  have a: "dialect (development env) = ''mysql'' \<longrightarrow>
        List.map_filter target (issued (run env)) = [(''mysql'', ''user'')]"
    by (simp add: run_issued calls_def)
  have b: "sync_result env = None \<and> SyncSettled \<in> set (schedule env)
        \<and> initial_db env ''user'' = Some t \<longrightarrow>
        db (run env) ''user'' =
          Some (t\<lparr>cols := columns User, rows := map (alter_row (columns User)) (rows t)\<rparr>)"
    by (simp add: run_db synced_def sync_table_def)
  have c: "alter_row (columns User)
        [(''id'', i), (''username'', u), (''password'', p), (''age'', a)] =
        [(''id'', i), (''username'', u), (''password'', p), (''age'', a)]"
    by (simp add: alter_row_def User_columns)
  from a b c show ?thesis
    by (simp add: run_issued calls_def getTableName_User)
qed

text \<open>The table that holds alice is the same after the synchronisation.\<close>

theorem one_sync_alters_user_witness:
  "dialect (development (example_env None None [''user'' \<mapsto> one_user] [SyncSettled])) = ''mysql''
   \<and> List.map_filter target
        (issued (run (example_env None None [''user'' \<mapsto> one_user] [SyncSettled]))) =
        [(''mysql'', ''user'')]
   \<and> sync_result (example_env None None [''user'' \<mapsto> one_user] [SyncSettled]) = None
   \<and> SyncSettled \<in> set (schedule (example_env None None [''user'' \<mapsto> one_user] [SyncSettled]))
   \<and> initial_db (example_env None None [''user'' \<mapsto> one_user] [SyncSettled]) ''user'' =
        Some one_user
   \<and> db (run (example_env None None [''user'' \<mapsto> one_user] [SyncSettled])) ''user'' =
        Some one_user"
proof -
  have r: "map (alter_row (columns User)) (rows one_user) = rows one_user"
    by (simp add: one_user_def alice_def alter_row_def User_columns)
  have o: "one_user\<lparr>cols := columns User, rows := rows one_user\<rparr> = one_user"
    by (simp add: one_user_def)
  show ?thesis
    using one_sync_alters_user
      [where env = "example_env None None [''user'' \<mapsto> one_user] [SyncSettled]"
        and t = one_user]
    by (simp add: example_env_def example_config_def r o)
qed

text \<open>
  C8. In the model, \<open>id\<close> is an integer, auto-increment, primary-key attribute and \<open>age\<close>
  an integer attribute with default 22. A record created without an age has age 22, and
  one created without an id gets the table's counter as its id, which no row of the
  table has, and the counter moves on.
\<close>

theorem id_and_age_columns:
  "map_of (rawAttributes User) ''id'' =
     Some \<lparr>type = INTEGER, autoIncrement = Some True, primaryKey = Some True,
           allowNull = None, unique = None, defaultValue = None\<rparr>
   \<and> map_of (rawAttributes User) ''age'' =
     Some \<lparr>type = INTEGER, autoIncrement = None, primaryKey = None,
           allowNull = None, unique = None, defaultValue = Some (IntV 22)\<rparr>
   \<and> (create User t vals now = Inr (r, t') \<and> map_of vals ''age'' = None \<longrightarrow>
        field r ''age'' = IntV 22)
   \<and> (create User t vals now = Inr (r, t') \<and> field vals ''id'' = Null \<longrightarrow>
        field r ''id'' = IntV (auto_increment t)
        \<and> \<not> list_ex (\<lambda>r'. field r' ''id'' = field r ''id'') (rows t)
        \<and> auto_increment t < auto_increment t')"
proof -
  have a: "create User t vals now = Inr (r, t') \<and> map_of vals ''age'' = None \<longrightarrow>
        field r ''age'' = IntV 22"
    using create_age by blast
  have b: "create User t vals now = Inr (r, t') \<and> field vals ''id'' = Null \<longrightarrow>
        field r ''id'' = IntV (auto_increment t)
        \<and> \<not> list_ex (\<lambda>r'. field r' ''id'' = field r ''id'') (rows t)
        \<and> auto_increment t < auto_increment t'"
    using create_id [of t vals now r t'] create_appends(5) [of t vals now r t'] by blast
  have i: "map_of (rawAttributes User) ''id'' =
     Some \<lparr>type = INTEGER, autoIncrement = Some True, primaryKey = Some True,
           allowNull = None, unique = None, defaultValue = None\<rparr>"
    by (simp add: User_def sequelize_define_def)
  have g: "map_of (rawAttributes User) ''age'' =
     Some \<lparr>type = INTEGER, autoIncrement = None, primaryKey = None,
           allowNull = None, unique = None, defaultValue = Some (IntV 22)\<rparr>"
    by (simp add: User_def sequelize_define_def)
  from i g a b show ?thesis by blast
qed

text \<open>Bob, created with a username and a password only, gets age 22 and id 2.\<close>

theorem id_and_age_columns_witness:
  "create User one_user (req_body post_users) Null =
       Inr (bob_row, one_user\<lparr>rows := [alice, bob_row], auto_increment := 3\<rparr>)
   \<and> map_of (req_body post_users) ''age'' = None
   \<and> field (req_body post_users) ''id'' = Null
   \<and> field bob_row ''age'' = IntV 22
   \<and> field bob_row ''id'' = IntV 2
   \<and> auto_increment one_user = 2"
proof -
  have h: "create User one_user (req_body post_users) Null =
       Inr (bob_row, one_user\<lparr>rows := [alice, bob_row], auto_increment := 3\<rparr>)"
    by code_simp
  have g: "map_of (req_body post_users) ''age'' = None \<and> field (req_body post_users) ''id'' = Null"
    by (simp add: post_users_def field_def)
  show ?thesis
    using id_and_age_columns
      [where t = one_user and vals = "req_body post_users" and now = Null and r = bob_row
        and t' = "one_user\<lparr>rows := [alice, bob_row], auto_increment := 3\<rparr>"] h g
    by (simp add: one_user_def)
qed

text \<open>
  C9. The table's columns are \<open>id\<close>, \<open>username\<close>, \<open>password\<close> and \<open>age\<close> and no other;
  with \<open>timestamps\<close> left out instead of false they would be followed by \<open>createdAt\<close> and
  \<open>updatedAt\<close>. A created record has exactly the four fields, and after a successful
  synchronisation the table \<open>user\<close> has exactly the four columns and every row of it
  exactly the four fields.
\<close>

theorem four_attributes:
  "map fst (columns User) = [''id'', ''username'', ''password'', ''age'']
   \<and> map fst (columns (User\<lparr>options := (options User)\<lparr>timestamps := None\<rparr>\<rparr>)) =
        [''id'', ''username'', ''password'', ''age'', ''createdAt'', ''updatedAt'']
   \<and> (create User t vals now = Inr (r, t') \<longrightarrow>
        map fst r = [''id'', ''username'', ''password'', ''age''])
   \<and> (sync_result env = None \<and> SyncSettled \<in> set (schedule env) \<longrightarrow>
        (case db (run env) ''user'' of
           None \<Rightarrow> False
         | Some u \<Rightarrow>
             map fst (cols u) = [''id'', ''username'', ''password'', ''age'']
             \<and> map (map fst) (rows u) =
                 map (\<lambda>r. [''id'', ''username'', ''password'', ''age'']) (rows u)))"
proof -
  have n: "map fst (columns User) = [''id'', ''username'', ''password'', ''age'']"
    by (simp add: User_columns)
  have a: "create User t vals now = Inr (r, t') \<longrightarrow>
        map fst r = [''id'', ''username'', ''password'', ''age'']"
    using create_appends(7) by blast
  have s: "map fst (cols (sync_table \<lparr>force = None, alter = Some True\<rparr> (columns User) old)) =
        [''id'', ''username'', ''password'', ''age'']
      \<and> map (map fst) (rows (sync_table \<lparr>force = None, alter = Some True\<rparr> (columns User) old)) =
        map (\<lambda>r. [''id'', ''username'', ''password'', ''age''])
          (rows (sync_table \<lparr>force = None, alter = Some True\<rparr> (columns User) old))" for old
    by (cases old) (simp_all add: sync_table_def create_table_def n alter_row_names comp_def)
  have b: "sync_result env = None \<and> SyncSettled \<in> set (schedule env) \<longrightarrow>
        (case db (run env) ''user'' of
           None \<Rightarrow> False
         | Some u \<Rightarrow>
             map fst (cols u) = [''id'', ''username'', ''password'', ''age'']
             \<and> map (map fst) (rows u) =
                 map (\<lambda>r. [''id'', ''username'', ''password'', ''age'']) (rows u))"
    using s [of "initial_db env ''user''"] by (simp add: run_db synced_def)
  have c: "map fst (columns (User\<lparr>options := (options User)\<lparr>timestamps := None\<rparr>\<rparr>)) =
        [''id'', ''username'', ''password'', ''age'', ''createdAt'', ''updatedAt'']"
    by (simp add: columns_def User_def sequelize_define_def timestampNames_def)
  from n a b c show ?thesis by blast
qed

text \<open>Bob's record, and the table that holds alice once it is synchronised.\<close>

theorem four_attributes_witness:
  "create User one_user (req_body post_users) Null =
       Inr (bob_row, one_user\<lparr>rows := [alice, bob_row], auto_increment := 3\<rparr>)
   \<and> map fst bob_row = [''id'', ''username'', ''password'', ''age'']
   \<and> sync_result (example_env None None [''user'' \<mapsto> one_user] [SyncSettled]) = None
   \<and> SyncSettled \<in> set (schedule (example_env None None [''user'' \<mapsto> one_user] [SyncSettled]))
   \<and> map_option (map (map fst) \<circ> rows)
        (db (run (example_env None None [''user'' \<mapsto> one_user] [SyncSettled])) ''user'') =
        Some [[''id'', ''username'', ''password'', ''age'']]"
proof -
  have h: "create User one_user (req_body post_users) Null =
       Inr (bob_row, one_user\<lparr>rows := [alice, bob_row], auto_increment := 3\<rparr>)"
    by code_simp
  have d: "map_option (map (map fst) \<circ> rows)
        (db (run (example_env None None [''user'' \<mapsto> one_user] [SyncSettled])) ''user'') =
        Some [[''id'', ''username'', ''password'', ''age'']]"
    by code_simp
  show ?thesis
    using four_attributes
      [where t = one_user and vals = "req_body post_users" and now = Null and r = bob_row
        and t' = "one_user\<lparr>rows := [alice, bob_row], auto_increment := 3\<rparr>"
        and env = "example_env None None [''user'' \<mapsto> one_user] [SyncSettled]"] h d
    by (simp add: example_env_def)
qed

text \<open>
  C10. The script calls \<^verbatim>\<open>listen(3000)\<close> in its synchronous part, outside every
  callback: the process listens on port 3000 as soon as the script has run and after
  any run, whatever the connection test and the synchronisation do. A failed connection
  test only logs \<^verbatim>\<open>Database Connection Failed\<close> with the error, a failed
  synchronisation only logs the error, and no run ends with an unhandled rejection.
\<close>

theorem listens_whatever_the_database_does:
  "listening (main env) = [3000]
   \<and> listening (run env) = [3000]
   \<and> unhandled (run env) = []
   \<and> (authenticate_result env = Some e \<longrightarrow>
        settle env (Authenticate cfg) s =
          console_log [Str ''Database Connection Failed'', Err e] s)
   \<and> (sync_result env = Some e' \<longrightarrow>
        settle env (Sync cfg tbl cs opts) s = console_log [Err e'] s)"
  by (simp add: run_listening run_unhandled main_eq end_of_chain_def promise_catch_def
      promise_then_def)

text \<open>Both calls refused: the process listens, and the console has the three lines.\<close>

theorem listens_whatever_the_database_does_witness:
  "authenticate_result (example_env (Some refused) (Some refused) Map.empty
        [SyncSettled, AuthenticateSettled, ListenCallback]) = Some refused
   \<and> sync_result (example_env (Some refused) (Some refused) Map.empty
        [SyncSettled, AuthenticateSettled, ListenCallback]) = Some refused
   \<and> settle (example_env (Some refused) (Some refused) Map.empty
          [SyncSettled, AuthenticateSettled, ListenCallback])
        (Authenticate example_config)
        (main (example_env (Some refused) (Some refused) Map.empty
          [SyncSettled, AuthenticateSettled, ListenCallback])) =
      console_log [Str ''Database Connection Failed'', Err refused]
        (main (example_env (Some refused) (Some refused) Map.empty
          [SyncSettled, AuthenticateSettled, ListenCallback]))
   \<and> listening (run (example_env (Some refused) (Some refused) Map.empty
        [SyncSettled, AuthenticateSettled, ListenCallback])) = [3000]
   \<and> unhandled (run (example_env (Some refused) (Some refused) Map.empty
        [SyncSettled, AuthenticateSettled, ListenCallback])) = []
   \<and> console (run (example_env (Some refused) (Some refused) Map.empty
        [SyncSettled, AuthenticateSettled, ListenCallback])) =
      [[Err refused], [Str ''Database Connection Failed'', Err refused],
       [Str ''Server is running on port 3000'']]"
proof -
  have c: "console (run (example_env (Some refused) (Some refused) Map.empty
        [SyncSettled, AuthenticateSettled, ListenCallback])) =
      [[Err refused], [Str ''Database Connection Failed'', Err refused],
       [Str ''Server is running on port 3000'']]"
    by code_simp
  have a: "authenticate_result (example_env (Some refused) (Some refused) Map.empty
        [SyncSettled, AuthenticateSettled, ListenCallback]) = Some refused"
    by (simp add: example_env_def)
  have b: "sync_result (example_env (Some refused) (Some refused) Map.empty
        [SyncSettled, AuthenticateSettled, ListenCallback]) = Some refused"
    by (simp add: example_env_def)
  show ?thesis
    using listens_whatever_the_database_does
      [where env = "example_env (Some refused) (Some refused) Map.empty
        [SyncSettled, AuthenticateSettled, ListenCallback]" and e = refused and e' = refused
        and cfg = example_config
        and s = "main (example_env (Some refused) (Some refused) Map.empty
          [SyncSettled, AuthenticateSettled, ListenCallback])"] a b c
    by simp
qed

end
